theory Spec2Isabelle
  imports Main "HOL-Library.Word" "HOL-Library.Sublist"
begin

section \<open>Strings of the JavaScript runtime\<close>

text \<open>
  A JavaScript string is a sequence of 16-bit code units. String literals of the
  component that are plain ASCII are written \<open>lit ''...''\<close>; the rupee sign of the
  templates is the single code unit U+20B9.
\<close>

type_synonym jsstring = "16 word list"

definition lit :: "string \<Rightarrow> jsstring" where
  "lit s = map (\<lambda>c. of_nat (of_char c)) s"

definition rupee :: jsstring where
  "rupee = [0x20B9]"

text \<open>
  White space in the sense of \<open>String.prototype.trim\<close> and of the regular expression
  class \<open>\s\<close>: the code units of WhiteSpace and LineTerminator of ECMAScript.
\<close>

definition isWhiteSpace :: "16 word \<Rightarrow> bool" where
  "isWhiteSpace c =
     (c = 0x0009 \<or> c = 0x000A \<or> c = 0x000B \<or> c = 0x000C \<or> c = 0x000D \<or> c = 0x0020 \<or>
      c = 0x00A0 \<or> c = 0x1680 \<or> (0x2000 \<le> c \<and> c \<le> 0x200A) \<or> c = 0x2028 \<or>
      c = 0x2029 \<or> c = 0x202F \<or> c = 0x205F \<or> c = 0x3000 \<or> c = 0xFEFF)"

text \<open>The class \<open>\d\<close> of a regular expression without the unicode flag: \<open>0\<close> to \<open>9\<close>.\<close>

definition isDigit :: "16 word \<Rightarrow> bool" where
  "isDigit c = (0x30 \<le> c \<and> c \<le> 0x39)"

text \<open>\<open>s.trim()\<close>: white space removed at both ends.\<close>

definition trim :: "jsstring \<Rightarrow> jsstring" where
  "trim s = rev (dropWhile isWhiteSpace (rev (dropWhile isWhiteSpace s)))"

text \<open>\<open>s.startsWith(sub)\<close> and \<open>s.includes(sub)\<close>, by comparison of code units.\<close>

fun startsWith :: "jsstring \<Rightarrow> jsstring \<Rightarrow> bool" where
  "startsWith s [] = True"
| "startsWith [] (c # sub) = False"
| "startsWith (d # s) (c # sub) = (d = c \<and> startsWith s sub)"

fun includes' :: "jsstring \<Rightarrow> jsstring \<Rightarrow> bool" where
  "includes' [] sub = (sub = [])"
| "includes' (d # s) sub = (startsWith (d # s) sub \<or> includes' s sub)"

text \<open>\<open>s.replace(/[^\d]/g, '')\<close>: every code unit that is not a digit is removed.\<close>

definition stripNonDigits :: "jsstring \<Rightarrow> jsstring" where
  "stripNonDigits s = filter isDigit s"

text \<open>\<open>s.replace(/\s+/g, '_')\<close>: every maximal run of white space becomes one underscore.\<close>

function replaceSpaces :: "jsstring \<Rightarrow> jsstring" where
  "replaceSpaces [] = []"
| "replaceSpaces (c # s) =
     (if isWhiteSpace c then 0x5F # replaceSpaces (dropWhile isWhiteSpace s)
      else c # replaceSpaces s)"
  by pat_completeness auto
termination
  by (relation "measure length") (auto simp: length_dropWhile_le less_Suc_eq_le)

section \<open>Dates\<close>

text \<open>
  A \<open>Date\<close> object holds a time value, an integral number of milliseconds since the
  epoch, or is an Invalid Date, whose \<open>getTime()\<close> is NaN.
\<close>

datatype Date = InvalidDate | Time int

text \<open>
  The comparisons of date-fns compare the time values; a comparison with NaN is false.
\<close>

fun isAfter :: "Date \<Rightarrow> Date \<Rightarrow> bool" where
  "isAfter (Time d) (Time c) = (d > c)"
| "isAfter _ _ = False"

fun isBefore :: "Date \<Rightarrow> Date \<Rightarrow> bool" where
  "isBefore (Time d) (Time c) = (d < c)"
| "isBefore _ _ = False"

fun isEqual :: "Date \<Rightarrow> Date \<Rightarrow> bool" where
  "isEqual (Time d) (Time c) = (d = c)"
| "isEqual _ _ = False"

section \<open>The functions of the runtime and of the libraries\<close>

text \<open>
  The component calls functions whose results depend on Unicode tables, on the locale,
  on the time zone or on the number format of the engine. They are parameters of the
  model: \<open>toLowerCase\<close> is \<open>String.prototype.toLowerCase\<close>, \<open>newDate\<close> is
  \<open>new Date(string)\<close>, \<open>parseISO\<close> is the function of date-fns, \<open>formatPPP\<close> is
  \<open>format(d, 'PPP')\<close> of date-fns on a valid date, and \<open>numberToString\<close> is the
  conversion of a number inside a template literal.
\<close>

record 'n runtime =
  toLowerCase :: "jsstring \<Rightarrow> jsstring"
  newDate :: "jsstring \<Rightarrow> Date"
  parseISO :: "jsstring \<Rightarrow> Date"
  formatPPP :: "int \<Rightarrow> jsstring"
  numberToString :: "'n \<Rightarrow> jsstring"

datatype error = RangeError | URIError | Rejected jsstring

fun errorName :: "error \<Rightarrow> jsstring" where
  "errorName RangeError = lit ''RangeError''"
| "errorName URIError = lit ''URIError''"
| "errorName (Rejected n) = n"

text \<open>
  \<open>encodeURIComponent\<close>: a code unit that is a letter, a digit or one of \<open>-_.!~*'()\<close>
  is kept; every other code point is replaced by the escapes \<open>%XX\<close> of the bytes of its
  UTF-8 encoding; a surrogate that is not part of a pair throws a URIError.
\<close>

definition isUnescaped :: "16 word \<Rightarrow> bool" where
  "isUnescaped c =
     ((0x41 \<le> c \<and> c \<le> 0x5A) \<or> (0x61 \<le> c \<and> c \<le> 0x7A) \<or> (0x30 \<le> c \<and> c \<le> 0x39) \<or>
      c = 0x2D \<or> c = 0x5F \<or> c = 0x2E \<or> c = 0x21 \<or> c = 0x7E \<or> c = 0x2A \<or>
      c = 0x27 \<or> c = 0x28 \<or> c = 0x29)"

definition hexDigit :: "nat \<Rightarrow> 16 word" where
  "hexDigit n = (if n < 10 then 0x30 + of_nat n else 0x41 + of_nat (n - 10))"

definition escapeByte :: "nat \<Rightarrow> jsstring" where
  "escapeByte b = [0x25, hexDigit (b div 16), hexDigit (b mod 16)]"

definition utf8 :: "nat \<Rightarrow> nat list" where
  "utf8 cp =
     (if cp < 0x80 then [cp]
      else if cp < 0x800 then [0xC0 + cp div 64, 0x80 + cp mod 64]
      else if cp < 0x10000 then [0xE0 + cp div 4096, 0x80 + cp div 64 mod 64, 0x80 + cp mod 64]
      else [0xF0 + cp div 262144, 0x80 + cp div 4096 mod 64, 0x80 + cp div 64 mod 64,
            0x80 + cp mod 64])"

definition isHighSurrogate :: "16 word \<Rightarrow> bool" where
  "isHighSurrogate c = (0xD800 \<le> c \<and> c \<le> 0xDBFF)"

definition isLowSurrogate :: "16 word \<Rightarrow> bool" where
  "isLowSurrogate c = (0xDC00 \<le> c \<and> c \<le> 0xDFFF)"

fun encodeURIComponent :: "jsstring \<Rightarrow> error + jsstring" where
  "encodeURIComponent [] = Inr []"
| "encodeURIComponent (c # s) =
     (if isUnescaped c then
        (case encodeURIComponent s of Inl e \<Rightarrow> Inl e | Inr r \<Rightarrow> Inr (c # r))
      else if isLowSurrogate c then Inl URIError
      else if isHighSurrogate c then
        (case s of
           [] \<Rightarrow> Inl URIError
         | d # s' \<Rightarrow>
             if isLowSurrogate d then
               (case encodeURIComponent s' of
                  Inl e \<Rightarrow> Inl e
                | Inr r \<Rightarrow>
                    Inr (concat (map escapeByte
                           (utf8 (0x10000 + (unat c - 0xD800) * 0x400 + (unat d - 0xDC00)))) @ r))
             else Inl URIError)
      else
        (case encodeURIComponent s of
           Inl e \<Rightarrow> Inl e
         | Inr r \<Rightarrow> Inr (concat (map escapeByte (utf8 (unat c))) @ r)))"

text \<open>\<open>format\<close> of date-fns throws a RangeError on an Invalid Date.\<close>

fun format :: "'n runtime \<Rightarrow> Date \<Rightarrow> error + jsstring" where
  "format rt InvalidDate = Inl RangeError"
| "format rt (Time t) = Inr (formatPPP rt t)"

section \<open>The data model\<close>

record 'n ServiceItem =
  description :: jsstring
  amount :: 'n

record 'n Invoice =
  id' :: jsstring
  date :: jsstring
  customerName :: jsstring
  customerPhone :: jsstring
  vehicleModel :: jsstring
  vehicleNumber :: jsstring
  services :: "'n ServiceItem list"
  total :: 'n

record DateRange =
  range_from :: "Date option"
  range_to :: "Date option"

definition parseInvoiceDate :: "'n runtime \<Rightarrow> jsstring \<Rightarrow> Date" where
  "parseInvoiceDate rt d =
     (case newDate rt d of InvalidDate \<Rightarrow> parseISO rt d | Time t \<Rightarrow> Time t)"

section \<open>The filter\<close>

definition vehicleMatches :: "'n runtime \<Rightarrow> jsstring \<Rightarrow> 'n Invoice \<Rightarrow> bool" where
  "vehicleMatches rt searchVehicle invoice =
     includes' (toLowerCase rt (vehicleNumber invoice)) (toLowerCase rt (trim searchVehicle))"

definition dateInRange :: "'n runtime \<Rightarrow> Date \<Rightarrow> Date \<Rightarrow> 'n Invoice \<Rightarrow> bool" where
  "dateInRange rt from to invoice =
     (let dateObj = parseInvoiceDate rt (date invoice)
      in (isAfter dateObj from \<or> isEqual dateObj from) \<and>
         (isBefore dateObj to \<or> isEqual dateObj to))"

definition filterInvoices ::
  "'n runtime \<Rightarrow> 'n Invoice list \<Rightarrow> jsstring \<Rightarrow> DateRange \<Rightarrow> 'n Invoice list" where
  "filterInvoices rt invoices searchVehicle dateRange =
     (let result = invoices;
          result = (if trim searchVehicle \<noteq> [] then filter (vehicleMatches rt searchVehicle) result
                    else result);
          result = (case (range_from dateRange, range_to dateRange) of
                      (Some from, Some to) \<Rightarrow> filter (dateInRange rt from to) result
                    | _ \<Rightarrow> result)
      in result)"

section \<open>The document of an invoice\<close>

text \<open>
  A jsPDF document is the sequence of the calls made on it. Coordinates are the
  numbers of the source; the vertical position \<open>currentY\<close> grows by 8 for each service.
\<close>

datatype jsPDFcall = SetFontSize nat | Text jsstring nat nat

type_synonym doc = "jsPDFcall list"

text \<open>The decimal digits of an array index inside a template literal.\<close>

function showNat :: "nat \<Rightarrow> jsstring" where
  "showNat n = (if n < 10 then [0x30 + of_nat n] else showNat (n div 10) @ [0x30 + of_nat (n mod 10)])"
  by pat_completeness auto
termination
  by (relation "measure id") auto

declare showNat.simps [simp del]

text \<open>
  The \<open>forEach\<close> over the services: \<open>index\<close> is the index of the first remaining
  service, \<open>currentY\<close> the position of its line; the position after the last line is
  returned with the calls.
\<close>

fun serviceLines :: "'n runtime \<Rightarrow> 'n ServiceItem list \<Rightarrow> nat \<Rightarrow> nat \<Rightarrow> doc \<times> nat" where
  "serviceLines rt [] index currentY = ([], currentY)"
| "serviceLines rt (service # rest) index currentY =
     (let line = Text (showNat (index + 1) @ lit ''. '' @ description service @ lit '' - '' @
                       rupee @ numberToString rt (amount service)) 20 currentY;
          (lines, y) = serviceLines rt rest (index + 1) (currentY + 8)
      in (line # lines, y))"

definition generatePdf :: "'n runtime \<Rightarrow> 'n Invoice \<Rightarrow> error + doc" where
  "generatePdf rt invoice =
     (case format rt (parseInvoiceDate rt (date invoice)) of
        Inl e \<Rightarrow> Inl e
      | Inr formatted \<Rightarrow>
          (let (lines, currentY) = serviceLines rt (services invoice) 0 (85 + 8)
           in Inr ([SetFontSize 16,
                    Text (lit ''Invoice #'' @ id' invoice) 14 20,
                    SetFontSize 12,
                    Text (lit ''Date: '' @ formatted) 14 30,
                    Text (lit ''Customer Name: '' @ customerName invoice) 14 40,
                    Text (lit ''Phone: '' @ customerPhone invoice) 14 50,
                    Text (lit ''Vehicle Model: '' @ vehicleModel invoice) 14 60,
                    Text (lit ''Vehicle Number: '' @ vehicleNumber invoice) 14 70,
                    Text (lit ''Services:'') 14 85]
                   @ lines
                   @ [Text (lit ''Total: '' @ rupee @ numberToString rt (total invoice))
                        14 (currentY + 5)])))"

section \<open>The state of the component and its calls to collaborators\<close>

datatype call =
    ToastSuccess jsstring
  | ToastError jsstring
  | ConsoleError jsstring error
  | DocSave jsstring doc
  | DocOutput doc
  | NavigatorShare jsstring jsstring jsstring doc
  | WindowOpen jsstring jsstring
  | Navigate jsstring

text \<open>
  The state of \<open>InvoiceList\<close>: its five state variables, the entry \<open>invoices\<close> of the
  local storage (the array that the stored JSON text denotes, \<open>None\<close> when the entry is
  absent), and the calls made so far to the collaborators.
\<close>

record 'n World =
  invoices :: "'n Invoice list"
  filteredInvoices :: "'n Invoice list"
  invoiceToDelete :: "jsstring option"
  searchVehicle :: jsstring
  dateRange :: DateRange
  localStorage :: "'n Invoice list option"
  calls :: "call list"

definition emit :: "call \<Rightarrow> 'n World \<Rightarrow> 'n World" where
  "emit c w = w\<lparr>calls := calls w @ [c]\<rparr>"

text \<open>The effect that runs once, on activation.\<close>

definition loadInvoices :: "'n World \<Rightarrow> 'n World" where
  "loadInvoices w =
     (let storedInvoices = (case localStorage w of None \<Rightarrow> [] | Some stored \<Rightarrow> stored)
      in w\<lparr>invoices := storedInvoices, filteredInvoices := storedInvoices\<rparr>)"

text \<open>The effect that depends on \<open>invoices\<close>, \<open>searchVehicle\<close> and \<open>dateRange\<close>.\<close>

definition refilter :: "'n runtime \<Rightarrow> 'n World \<Rightarrow> 'n World" where
  "refilter rt w =
     w\<lparr>filteredInvoices := filterInvoices rt (invoices w) (searchVehicle w) (dateRange w)\<rparr>"

definition resetFilters :: "'n World \<Rightarrow> 'n World" where
  "resetFilters w =
     w\<lparr>searchVehicle := [],
       dateRange := \<lparr>range_from = None, range_to = None\<rparr>,
       filteredInvoices := invoices w\<rparr>"

definition fileName :: "'n Invoice \<Rightarrow> jsstring" where
  "fileName invoice =
     (let safeName = replaceSpaces (customerName invoice)
      in lit ''Invoice_'' @ safeName @ lit ''_'' @ id' invoice @ lit ''.pdf'')"

text \<open>
  A handler that can throw returns the exception, if any, with the state it leaves.
\<close>

definition downloadInvoice :: "'n runtime \<Rightarrow> 'n Invoice \<Rightarrow> 'n World \<Rightarrow> error option \<times> 'n World" where
  "downloadInvoice rt invoice w =
     (case generatePdf rt invoice of
        Inl e \<Rightarrow> (Some e, w)
      | Inr doc \<Rightarrow> (None, emit (DocSave (fileName invoice) doc) w))"

fun saveEach :: "'n runtime \<Rightarrow> 'n Invoice list \<Rightarrow> 'n World \<Rightarrow> error option \<times> 'n World" where
  "saveEach rt [] w = (None, w)"
| "saveEach rt (invoice # rest) w =
     (case generatePdf rt invoice of
        Inl e \<Rightarrow> (Some e, w)
      | Inr doc \<Rightarrow> saveEach rt rest (emit (DocSave (fileName invoice) doc) w))"

definition saveAllInvoicesAsPDF :: "'n runtime \<Rightarrow> 'n World \<Rightarrow> error option \<times> 'n World" where
  "saveAllInvoicesAsPDF rt w =
     (case saveEach rt (filteredInvoices w) w of
        (Some e, w') \<Rightarrow> (Some e, w')
      | (None, w') \<Rightarrow> (None, emit (ToastSuccess (lit ''All invoices saved as PDFs'')) w'))"

definition handleEdit :: "jsstring \<Rightarrow> 'n World \<Rightarrow> 'n World" where
  "handleEdit i w = emit (Navigate (lit ''/edit/'' @ i)) w"

definition handleDelete :: "jsstring \<Rightarrow> 'n World \<Rightarrow> 'n World" where
  "handleDelete i w =
     (let updatedInvoices = filter (\<lambda>invoice. id' invoice \<noteq> i) (invoices w);
          w = w\<lparr>localStorage := Some updatedInvoices\<rparr>;
          w = w\<lparr>invoices := updatedInvoices\<rparr>;
          w = w\<lparr>filteredInvoices := updatedInvoices\<rparr>;
          w = emit (ToastSuccess (lit ''Invoice deleted successfully'')) w
      in w\<lparr>invoiceToDelete := None\<rparr>)"

subsection \<open>Sharing\<close>

text \<open>
  What \<open>navigator.share\<close> is when the handler runs: absent, or a function whose promise
  resolves, or one whose promise rejects with an error of the given name.
\<close>

datatype navigator = NoShare | ShareResolves | ShareRejects jsstring

definition shareText :: "'n Invoice \<Rightarrow> jsstring" where
  "shareText invoice =
     lit ''Hi '' @ customerName invoice @ lit '', here'' @ [0x27] @ lit ''s your invoice for '' @
     vehicleModel invoice @ lit '' ('' @ vehicleNumber invoice @ lit '')''"

definition shareMessage :: "'n runtime \<Rightarrow> 'n Invoice \<Rightarrow> jsstring" where
  "shareMessage rt invoice =
     shareText invoice @ lit ''.'' @ [0x0A] @
     lit ''Total: '' @ rupee @ numberToString rt (total invoice) @ [0x0A] @
     lit ''Download PDF:''"

text \<open>The body of the \<open>try\<close> block of \<open>handleShare\<close>.\<close>

definition shareAttempt ::
  "'n runtime \<Rightarrow> navigator \<Rightarrow> 'n Invoice \<Rightarrow> 'n World \<Rightarrow> error option \<times> 'n World" where
  "shareAttempt rt nav invoice w =
     (case generatePdf rt invoice of
        Inl e \<Rightarrow> (Some e, w)
      | Inr doc \<Rightarrow>
          (let w = emit (DocOutput doc) w;
               pdfFile = lit ''Invoice_'' @ id' invoice @ lit ''.pdf''
           in case nav of
                ShareResolves \<Rightarrow>
                  (None, emit (NavigatorShare (lit ''Invoice '' @ id' invoice)
                                 (shareText invoice) pdfFile doc) w)
              | ShareRejects name \<Rightarrow>
                  (Some (Rejected name),
                   emit (NavigatorShare (lit ''Invoice '' @ id' invoice)
                           (shareText invoice) pdfFile doc) w)
              | NoShare \<Rightarrow>
                  (let phone = stripNonDigits (customerPhone invoice)
                   in case encodeURIComponent (shareMessage rt invoice) of
                        Inl e \<Rightarrow> (Some e, w)
                      | Inr message \<Rightarrow>
                          (None, emit (WindowOpen (lit ''https://wa.me/'' @ phone @
                                                   lit ''?text='' @ message)
                                         (lit ''_blank'')) w))))"

definition handleShare :: "'n runtime \<Rightarrow> navigator \<Rightarrow> 'n Invoice \<Rightarrow> 'n World \<Rightarrow> 'n World" where
  "handleShare rt nav invoice w =
     (if customerPhone invoice = [] then
        emit (ToastError (lit ''Customer phone number is missing.'')) w
      else
        (case shareAttempt rt nav invoice w of
           (None, w) \<Rightarrow> w
         | (Some error, w) \<Rightarrow>
             (let w = emit (ConsoleError (lit ''Sharing failed:'') error) w
              in if errorName error \<noteq> lit ''AbortError''
                 then emit (ToastError (lit ''Sharing failed. Please try again.'')) w
                 else w)))"

section \<open>The properties in the words of the specification\<close>

text \<open>
  A string contains another one case-insensitively when the lower-case form of the
  second is a contiguous part of the lower-case form of the first.
\<close>

definition containsIgnoringCase :: "'n runtime \<Rightarrow> jsstring \<Rightarrow> jsstring \<Rightarrow> bool" where
  "containsIgnoringCase rt s sub = sublist (toLowerCase rt sub) (toLowerCase rt s)"

definition withinRange :: "'n runtime \<Rightarrow> int \<Rightarrow> int \<Rightarrow> 'n Invoice \<Rightarrow> bool" where
  "withinRange rt a b invoice =
     (case parseInvoiceDate rt (date invoice) of InvalidDate \<Rightarrow> False | Time d \<Rightarrow> a \<le> d \<and> d \<le> b)"

definition passesVehicle :: "'n runtime \<Rightarrow> jsstring \<Rightarrow> 'n Invoice \<Rightarrow> bool" where
  "passesVehicle rt s invoice =
     (trim s = [] \<or> containsIgnoringCase rt (vehicleNumber invoice) (trim s))"

text \<open>
  The line of the service with the given number, and the text lines of a document in
  the order in which they are written.
\<close>

definition serviceLine :: "'n runtime \<Rightarrow> nat \<Rightarrow> 'n ServiceItem \<Rightarrow> jsstring" where
  "serviceLine rt index service =
     showNat index @ lit ''. '' @ description service @ lit '' - '' @ rupee @
     numberToString rt (amount service)"

fun textLines :: "doc \<Rightarrow> jsstring list" where
  "textLines [] = []"
| "textLines (Text s x y # cs) = s # textLines cs"
| "textLines (SetFontSize n # cs) = textLines cs"

text \<open>
  Two states agree on the master collection, the filtered view, the filter criteria,
  the pending delete and the persisted store.
\<close>

definition sameState :: "'n World \<Rightarrow> 'n World \<Rightarrow> bool" where
  "sameState w w' =
     (invoices w' = invoices w \<and> filteredInvoices w' = filteredInvoices w \<and>
      searchVehicle w' = searchVehicle w \<and> dateRange w' = dateRange w \<and>
      invoiceToDelete w' = invoiceToDelete w \<and> localStorage w' = localStorage w)"

section \<open>Example data\<close>

text \<open>
  A runtime for the examples. It agrees with an engine running in UTC on the strings
  and numbers that the examples use: the letters of the examples are ASCII, the two
  date strings are the dates of the scenario of the specification, and every other
  date string of the examples is one that no parser accepts.
\<close>

definition asciiLower :: "16 word \<Rightarrow> 16 word" where
  "asciiLower c = (if 0x41 \<le> c \<and> c \<le> 0x5A then c + 0x20 else c)"

definition exampleDate :: "jsstring \<Rightarrow> Date" where
  "exampleDate d =
     (if d = lit ''2024-01-05'' then Time 1704412800000
      else if d = lit ''2024-02-10'' then Time 1707523200000
      else InvalidDate)"

definition exampleFormat :: "int \<Rightarrow> jsstring" where
  "exampleFormat t =
     (if t = 1704412800000 then lit ''January 5th, 2024''
      else if t = 1707523200000 then lit ''February 10th, 2024''
      else [])"

definition exampleRuntime :: "nat runtime" where
  "exampleRuntime =
     \<lparr>toLowerCase = map asciiLower,
      newDate = exampleDate,
      parseISO = (\<lambda>d. InvalidDate),
      formatPPP = exampleFormat,
      numberToString = showNat\<rparr>"

definition invoice1 :: "nat Invoice" where
  "invoice1 =
     \<lparr>id' = lit ''1'', date = lit ''2024-01-05'', customerName = lit ''Asha Rao'',
      customerPhone = lit ''98450 12345'', vehicleModel = lit ''Swift'',
      vehicleNumber = lit ''KA01AB1234'',
      services = [\<lparr>description = lit ''Gas refill'', amount = 350\<rparr>,
                  \<lparr>description = lit ''Filter'', amount = 150\<rparr>],
      total = 500\<rparr>"

definition invoice2 :: "nat Invoice" where
  "invoice2 =
     \<lparr>id' = lit ''2'', date = lit ''2024-02-10'', customerName = lit ''Ravi'',
      customerPhone = [], vehicleModel = lit ''City'',
      vehicleNumber = lit ''KA02CD5678'',
      services = [\<lparr>description = lit ''Compressor'', amount = 800\<rparr>],
      total = 800\<rparr>"

definition invoice3 :: "nat Invoice" where
  "invoice3 =
     \<lparr>id' = lit ''3'', date = lit ''soon'', customerName = lit ''Kiran'',
      customerPhone = lit ''080 4000'', vehicleModel = lit ''Nano'',
      vehicleNumber = lit ''TN09XY0001'',
      services = [],
      total = 0\<rparr>"

definition invoice4 :: "nat Invoice" where
  "invoice4 =
     \<lparr>id' = lit ''4'', date = lit ''2024-02-10'', customerName = lit ''Meena K'',
      customerPhone = lit ''  '', vehicleModel = lit ''Alto'',
      vehicleNumber = lit ''TN09XY0001'',
      services = [],
      total = 0\<rparr>"

definition exampleWorld :: "nat World" where
  "exampleWorld =
     \<lparr>invoices = [invoice1, invoice2, invoice3],
      filteredInvoices = [invoice1, invoice2, invoice3],
      invoiceToDelete = None, searchVehicle = [],
      dateRange = \<lparr>range_from = None, range_to = None\<rparr>,
      localStorage = Some [invoice1, invoice2, invoice3],
      calls = []\<rparr>"

lemmas example_defs = exampleRuntime_def exampleDate_def exampleFormat_def asciiLower_def
  invoice1_def invoice2_def invoice3_def invoice4_def exampleWorld_def lit_def

section \<open>Auxiliary facts\<close>

lemma startsWith_iff: "startsWith s sub \<longleftrightarrow> prefix sub s"
  by (induction s sub rule: startsWith.induct) auto

lemma includes_iff: "includes' s sub \<longleftrightarrow> sublist sub s"
  by (induction s) (auto simp: startsWith_iff sublist_Cons_right)

lemma vehicleMatches_iff:
  "vehicleMatches rt s invoice \<longleftrightarrow> containsIgnoringCase rt (vehicleNumber invoice) (trim s)"
  by (simp add: vehicleMatches_def containsIgnoringCase_def includes_iff)

lemma vehicleMatches_fun:
  "vehicleMatches rt s = (\<lambda>invoice. containsIgnoringCase rt (vehicleNumber invoice) (trim s))"
  by (rule ext) (rule vehicleMatches_iff)

lemma dateInRange_iff:
  "dateInRange rt (Time a) (Time b) invoice \<longleftrightarrow> withinRange rt a b invoice"
  by (cases "parseInvoiceDate rt (date invoice)")
     (auto simp: dateInRange_def withinRange_def)

lemma dateInRange_fun: "dateInRange rt (Time a) (Time b) = withinRange rt a b"
  by (rule ext) (rule dateInRange_iff)

lemma dateInRange_invalid:
  "parseInvoiceDate rt (date invoice) = InvalidDate \<Longrightarrow> \<not> dateInRange rt from to invoice"
  by (simp add: dateInRange_def)

lemma filterInvoices_no_range:
  "filterInvoices rt C s \<lparr>range_from = None, range_to = None\<rparr> =
     (if trim s \<noteq> [] then filter (vehicleMatches rt s) C else C)"
  by (simp add: filterInvoices_def)

lemma filterInvoices_range:
  "filterInvoices rt C s \<lparr>range_from = Some from, range_to = Some to\<rparr> =
     filter (dateInRange rt from to) (if trim s \<noteq> [] then filter (vehicleMatches rt s) C else C)"
  by (simp add: filterInvoices_def)

lemma filter_twice: "filter P (filter P xs) = filter P xs"
  by simp

lemma filter_pair_twice: "filter Q (filter P (filter Q (filter P xs))) = filter Q (filter P xs)"
  by (induction xs) auto

lemma filterInvoices_active:
  assumes "range_from dr = Some lo" and "range_to dr = Some hi"
  shows "filterInvoices rt C s dr =
           filter (dateInRange rt lo hi)
             (if trim s \<noteq> [] then filter (vehicleMatches rt s) C else C)"
  using assms by (simp add: filterInvoices_def)

lemma filterInvoices_inactive:
  assumes "range_from dr = None \<or> range_to dr = None"
  shows "filterInvoices rt C s dr = (if trim s \<noteq> [] then filter (vehicleMatches rt s) C else C)"
  using assms by (auto simp: filterInvoices_def split: option.splits)

lemma filterInvoices_twice:
  "filterInvoices rt (filterInvoices rt C s dr) s dr = filterInvoices rt C s dr"
proof (cases "range_from dr = None \<or> range_to dr = None")
  case True
  then show ?thesis by (simp add: filterInvoices_inactive)
next
  case False
  then obtain lo hi where "range_from dr = Some lo" and "range_to dr = Some hi" by auto
  then show ?thesis
    by (cases "trim s = []") (simp_all add: filterInvoices_active filter_pair_twice del: filter_filter)
qed

lemma count_list_filter_keep: "P x \<Longrightarrow> count_list (filter P xs) x = count_list xs x"
  by (induction xs) auto

lemma handleDelete_invoices:
  "invoices (handleDelete X w) = filter (\<lambda>invoice. id' invoice \<noteq> X) (invoices w)"
  by (simp add: handleDelete_def emit_def Let_def)

lemma textLines_append: "textLines (xs @ ys) = textLines xs @ textLines ys"
  by (induction xs rule: textLines.induct) auto

lemma textLines_serviceLines:
  "serviceLines rt ss index y = (lines, y') \<Longrightarrow>
     textLines lines = map (\<lambda>(i, service). serviceLine rt (i + 1) service) (enumerate index ss)"
proof (induction ss arbitrary: index y lines y')
  case Nil
  then show ?case by simp
next
  case (Cons service rest)
  obtain ls z where r: "serviceLines rt rest (index + 1) (y + 8) = (ls, z)"
    by (cases "serviceLines rt rest (index + 1) (y + 8)")
  from Cons.IH [OF r]
  have "textLines ls = map (\<lambda>(i, service). serviceLine rt (i + 1) service) (enumerate (Suc index) rest)"
    by simp
  with Cons.prems r show ?case
    by (auto simp: serviceLine_def)
qed

lemma saveEach_state: "\<exists>cs. snd (saveEach rt xs w) = w\<lparr>calls := calls w @ cs\<rparr>"
proof (induction xs arbitrary: w)
  case Nil
  have "snd (saveEach rt [] w) = w\<lparr>calls := calls w @ []\<rparr>" by simp
  then show ?case by blast
next
  case (Cons invoice rest)
  show ?case
  proof (cases "generatePdf rt invoice")
    case (Inl e)
    then have "snd (saveEach rt (invoice # rest) w) = w\<lparr>calls := calls w @ []\<rparr>" by simp
    then show ?thesis by blast
  next
    case (Inr doc)
    let ?w = "emit (DocSave (fileName invoice) doc) w"
    from Cons.IH [of ?w] obtain cs where "snd (saveEach rt rest ?w) = ?w\<lparr>calls := calls ?w @ cs\<rparr>"
      by blast
    with Inr have "snd (saveEach rt (invoice # rest) w) =
        w\<lparr>calls := calls w @ (DocSave (fileName invoice) doc # cs)\<rparr>"
      by (simp add: emit_def)
    then show ?thesis by blast
  qed
qed

lemma sameState_calls: "sameState w (w\<lparr>calls := cs\<rparr>)"
  by (simp add: sameState_def)

lemma handleShare_first_call:
  assumes "customerPhone invoice \<noteq> []"
  shows "\<exists>c cs. calls (handleShare rt nav invoice w) = calls w @ c # cs
           \<and> c \<noteq> ToastError (lit ''Customer phone number is missing.'')"
  using assms
  by (auto simp: handleShare_def shareAttempt_def emit_def Let_def
      split: sum.splits navigator.splits)

lemma stripNonDigits_none: "\<forall>c \<in> set s. \<not> isDigit c \<Longrightarrow> stripNonDigits s = []"
  by (induction s) (auto simp: stripNonDigits_def)

lemma whiteSpace_not_digit: "isWhiteSpace c \<Longrightarrow> \<not> isDigit c"
proof
  assume ws: "isWhiteSpace c" and dg: "isDigit c"
  from dg have hi: "c \<le> 0x39" and lo: "0x30 \<le> c" by (simp_all add: isDigit_def)
  have far: False if "0x2000 \<le> c"
  proof -
    from that hi have "(0x2000 :: 16 word) \<le> 0x39" by (rule order_trans)
    then show False by simp
  qed
  from ws lo hi far show False
    by (auto simp: isWhiteSpace_def)
qed

lemma generatePdf_valid:
  "parseInvoiceDate rt (date invoice) = Time t \<Longrightarrow> \<exists>doc. generatePdf rt invoice = Inr doc"
  by (simp add: generatePdf_def split: prod.splits)

section \<open>The filter engine\<close>

text \<open>
  Claim C2. When the vehicle substring is not empty after trimming and no date range
  is set, the filtered view is a subsequence of the collection, in the order of the
  collection, and it consists of exactly the invoices whose vehicle number contains
  the trimmed substring case-insensitively: every invoice that is kept contains it,
  and no invoice that is left out does.
\<close>

theorem filter_vehicle:
  fixes rt :: "'n runtime" and C :: "'n Invoice list"
  assumes "trim s \<noteq> []"
  defines "result \<equiv> filterInvoices rt C s \<lparr>range_from = None, range_to = None\<rparr>"
  shows "subseq result C
    \<and> result = filter (\<lambda>invoice. containsIgnoringCase rt (vehicleNumber invoice) (trim s)) C
    \<and> (\<forall>invoice \<in> set result. containsIgnoringCase rt (vehicleNumber invoice) (trim s))
    \<and> (\<forall>invoice \<in> set C. invoice \<notin> set result \<longrightarrow>
          \<not> containsIgnoringCase rt (vehicleNumber invoice) (trim s))"
proof -
  have eq: "result = filter (\<lambda>invoice. containsIgnoringCase rt (vehicleNumber invoice) (trim s)) C"
    using assms(1) by (simp add: result_def filterInvoices_no_range vehicleMatches_fun)
  then show ?thesis by auto
qed


theorem filter_vehicle_witness:
  "trim (lit '' ka01 '') \<noteq> []
   \<and> filterInvoices exampleRuntime [invoice1, invoice2, invoice3] (lit '' ka01 '')
        \<lparr>range_from = None, range_to = None\<rparr> = [invoice1]
   \<and> containsIgnoringCase exampleRuntime (vehicleNumber invoice1) (trim (lit '' ka01 ''))
   \<and> \<not> containsIgnoringCase exampleRuntime (vehicleNumber invoice2) (trim (lit '' ka01 ''))"
proof -
  have t: "trim (lit '' ka01 '') \<noteq> []"
    by (simp add: trim_def isWhiteSpace_def lit_def)
  have r: "filterInvoices exampleRuntime [invoice1, invoice2, invoice3] (lit '' ka01 '')
        \<lparr>range_from = None, range_to = None\<rparr> = [invoice1]"
    by (simp add: filterInvoices_no_range vehicleMatches_def trim_def isWhiteSpace_def example_defs)
  have d: "invoice2 \<noteq> invoice1" by (simp add: example_defs)
  from filter_vehicle [OF t, of exampleRuntime "[invoice1, invoice2, invoice3]"] r d t
  show ?thesis by simp
qed

text \<open>
  Claim C3. With both bounds of the date range present and \<open>a \<le> b\<close>, every invoice
  of the filtered view has a parsed date \<open>d\<close> with \<open>a \<le> d \<le> b\<close>; an invoice dated
  exactly \<open>a\<close> or exactly \<open>b\<close> that passes the vehicle criterion is kept; and the view
  consists of the invoices that pass the vehicle criterion and the date criterion.
\<close>

theorem filter_date_range:
  fixes rt :: "'n runtime" and C :: "'n Invoice list" and s :: jsstring
  assumes "a \<le> b"
  defines "result \<equiv> filterInvoices rt C s \<lparr>range_from = Some (Time a), range_to = Some (Time b)\<rparr>"
  shows "(\<forall>invoice \<in> set result.
            \<exists>d. parseInvoiceDate rt (date invoice) = Time d \<and> a \<le> d \<and> d \<le> b)
    \<and> (\<forall>invoice \<in> set C.
          passesVehicle rt s invoice \<and>
          (parseInvoiceDate rt (date invoice) = Time a \<or> parseInvoiceDate rt (date invoice) = Time b)
          \<longrightarrow> invoice \<in> set result)
    \<and> result = filter (\<lambda>invoice. passesVehicle rt s invoice \<and> withinRange rt a b invoice) C"
proof -
  have eq: "result = filter (\<lambda>invoice. passesVehicle rt s invoice \<and> withinRange rt a b invoice) C"
    by (simp add: result_def filterInvoices_range dateInRange_fun vehicleMatches_fun
        passesVehicle_def conj_commute)
  have inside: "\<exists>d. parseInvoiceDate rt (date invoice) = Time d \<and> a \<le> d \<and> d \<le> b"
    if "withinRange rt a b invoice" for invoice
    using that by (cases "parseInvoiceDate rt (date invoice)") (auto simp: withinRange_def)
  have bounds: "withinRange rt a b invoice"
    if "parseInvoiceDate rt (date invoice) = Time a \<or> parseInvoiceDate rt (date invoice) = Time b"
    for invoice
    using that assms(1) by (auto simp: withinRange_def)
  show ?thesis using eq inside bounds by auto
qed

theorem filter_date_range_witness:
  "(1704412800000::int) \<le> 1707523200000
   \<and> filterInvoices exampleRuntime [invoice1, invoice2, invoice3] []
        \<lparr>range_from = Some (Time 1704412800000), range_to = Some (Time 1707523200000)\<rparr>
       = [invoice1, invoice2]
   \<and> parseInvoiceDate exampleRuntime (date invoice1) = Time 1704412800000
   \<and> parseInvoiceDate exampleRuntime (date invoice2) = Time 1707523200000
   \<and> passesVehicle exampleRuntime [] invoice1
   \<and> withinRange exampleRuntime 1704412800000 1707523200000 invoice2
   \<and> \<not> withinRange exampleRuntime 1704412800000 1707523200000 invoice3"
proof -
  have le: "(1704412800000::int) \<le> 1707523200000" by simp
  have p1: "parseInvoiceDate exampleRuntime (date invoice1) = Time 1704412800000"
    by (simp add: parseInvoiceDate_def example_defs)
  have p2: "parseInvoiceDate exampleRuntime (date invoice2) = Time 1707523200000"
    by (simp add: parseInvoiceDate_def example_defs)
  have p3: "parseInvoiceDate exampleRuntime (date invoice3) = InvalidDate"
    by (simp add: parseInvoiceDate_def example_defs)
  have v: "passesVehicle exampleRuntime [] invoice"  for invoice :: "nat Invoice"
    by (simp add: passesVehicle_def trim_def)
  from filter_date_range [OF le, of exampleRuntime "[invoice1, invoice2, invoice3]" "[]"]
  show ?thesis using le p1 p2 p3 v by (simp add: withinRange_def)
qed

text \<open>
  Claim C4. When a date range is active, filtering a collection that contains an
  invoice whose date string cannot be parsed returns a result, that invoice is not in
  the result, and the result is the one the collection without that invoice gives.
\<close>

theorem filter_unparsable_date:
  fixes rt :: "'n runtime" and C :: "'n Invoice list"
  assumes "invoice \<in> set C"
    and "parseInvoiceDate rt (date invoice) = InvalidDate"
    and "range_from dr = Some from" and "range_to dr = Some to"
  shows "\<exists>result. filterInvoices rt C s dr = result \<and> invoice \<notin> set result
           \<and> result = filterInvoices rt (removeAll invoice C) s dr"
proof -
  have no: "\<not> dateInRange rt from to invoice"
    using assms(2) by (rule dateInRange_invalid)
  have drop: "filter (dateInRange rt from to) (filter P (removeAll invoice C))
                = filter (dateInRange rt from to) (filter P C)" for P
    using no by (induction C) auto
  have drop': "filter (dateInRange rt from to) (removeAll invoice C)
                = filter (dateInRange rt from to) C"
    using no by (induction C) auto
  show ?thesis
    using no assms(3,4) drop drop' by (auto simp: filterInvoices_def)
qed

theorem filter_unparsable_date_witness:
  "invoice3 \<in> set [invoice1, invoice2, invoice3]
   \<and> parseInvoiceDate exampleRuntime (date invoice3) = InvalidDate
   \<and> invoice3 \<notin> set (filterInvoices exampleRuntime [invoice1, invoice2, invoice3] []
        \<lparr>range_from = Some (Time 0), range_to = Some (Time 1707523200000)\<rparr>)"
proof -
  let ?dr = "\<lparr>range_from = Some (Time 0), range_to = Some (Time 1707523200000)\<rparr>"
  have m: "invoice3 \<in> set [invoice1, invoice2, invoice3]" by simp
  have p: "parseInvoiceDate exampleRuntime (date invoice3) = InvalidDate"
    by (simp add: parseInvoiceDate_def example_defs)
  have lo: "range_from ?dr = Some (Time 0)" by simp
  have hi: "range_to ?dr = Some (Time 1707523200000)" by simp
  from filter_unparsable_date [OF m p lo hi, of "[]"]
  have "invoice3 \<notin> set (filterInvoices exampleRuntime [invoice1, invoice2, invoice3] [] ?dr)"
    by blast
  with m p show ?thesis by blast
qed

text \<open>
  Claim C5. With an empty vehicle substring and no date range, the filter returns
  the collection itself.
\<close>

theorem filter_identity:
  "filterInvoices rt C [] \<lparr>range_from = None, range_to = None\<rparr> = C"
  by (simp add: filterInvoices_no_range trim_def)

text \<open>
  Claim C6. The filter is idempotent: filtering the filtered view again with the same
  criteria gives the same view, and running the filter effect twice on unchanged
  inputs leaves the state that one run leaves.
\<close>

theorem filter_idempotent:
  "filterInvoices rt (filterInvoices rt C s dr) s dr = filterInvoices rt C s dr
   \<and> refilter rt (refilter rt w) = refilter rt w"
  by (simp add: filterInvoices_twice refilter_def)

section \<open>The list controller\<close>

text \<open>
  Claim C1. After \<open>handleDelete X\<close> the collection has no invoice with id \<open>X\<close>; it is
  a subsequence of the collection before, so the invoices that remain keep their content
  and their relative order; every invoice with another id occurs as often as before;
  when no invoice has id \<open>X\<close> the collection is unchanged; and in every case the
  success notification is issued and the new collection is what the store holds.
\<close>

theorem handleDelete_removes:
  fixes w :: "'n World" and X :: jsstring
  defines "C \<equiv> invoices w"
  defines "w' \<equiv> handleDelete X w"
  shows "(\<forall>invoice \<in> set (invoices w'). id' invoice \<noteq> X)
    \<and> subseq (invoices w') C
    \<and> (\<forall>invoice. id' invoice \<noteq> X \<longrightarrow> count_list (invoices w') invoice = count_list C invoice)
    \<and> ((\<forall>invoice \<in> set C. id' invoice \<noteq> X) \<longrightarrow> invoices w' = C)
    \<and> calls w' = calls w @ [ToastSuccess (lit ''Invoice deleted successfully'')]
    \<and> localStorage w' = Some (invoices w')"
proof -
  have inv: "invoices w' = filter (\<lambda>invoice. id' invoice \<noteq> X) C"
    by (simp add: w'_def C_def handleDelete_invoices)
  have rest: "calls w' = calls w @ [ToastSuccess (lit ''Invoice deleted successfully'')]
    \<and> localStorage w' = Some (invoices w')"
    by (simp add: w'_def handleDelete_def emit_def Let_def)
  show ?thesis
    using rest by (simp add: inv count_list_filter_keep)
qed

theorem handleDelete_removes_witness:
  "invoices (handleDelete (lit ''1'') exampleWorld) = [invoice2, invoice3]
   \<and> id' invoice2 \<noteq> lit ''1'' \<and> id' invoice3 \<noteq> lit ''1''
   \<and> count_list (invoices (handleDelete (lit ''1'') exampleWorld)) invoice2 = 1
   \<and> invoices exampleWorld = [invoice1, invoice2, invoice3]
   \<and> id' invoice1 \<noteq> lit ''9'' \<and> id' invoice2 \<noteq> lit ''9'' \<and> id' invoice3 \<noteq> lit ''9''
   \<and> invoices (handleDelete (lit ''9'') exampleWorld) = invoices exampleWorld
   \<and> calls (handleDelete (lit ''9'') exampleWorld)
        = [ToastSuccess (lit ''Invoice deleted successfully'')]"
proof -
  have a: "invoices (handleDelete (lit ''1'') exampleWorld) = [invoice2, invoice3]"
    by (simp add: handleDelete_invoices example_defs)
  have b: "\<forall>invoice \<in> set (invoices exampleWorld). id' invoice \<noteq> lit ''9''"
    by (simp add: example_defs)
  have c: "id' invoice2 \<noteq> lit ''1''" "id' invoice3 \<noteq> lit ''1''" "invoice2 \<noteq> invoice1"
    "invoice3 \<noteq> invoice2"
    by (simp_all add: example_defs)
  have d: "calls exampleWorld = []" by (simp add: exampleWorld_def)
  from handleDelete_removes [of "lit ''1''" exampleWorld]
  have e: "count_list (invoices (handleDelete (lit ''1'') exampleWorld)) invoice2 = 1"
    using c by (simp add: exampleWorld_def)
  from handleDelete_removes [of "lit ''9''" exampleWorld] b d
  have f: "invoices (handleDelete (lit ''9'') exampleWorld) = invoices exampleWorld
     \<and> calls (handleDelete (lit ''9'') exampleWorld)
        = [ToastSuccess (lit ''Invoice deleted successfully'')]"
    by simp
  have g: "invoices exampleWorld = [invoice1, invoice2, invoice3]"
    by (simp add: exampleWorld_def)
  have h: "id' invoice1 \<noteq> lit ''9''" "id' invoice2 \<noteq> lit ''9''" "id' invoice3 \<noteq> lit ''9''"
    by (simp_all add: example_defs)
  from a c e f g h show ?thesis by simp
qed


section \<open>The document export mapper\<close>

text \<open>
  Claim C7, as stated for every invoice, fails on an invoice whose date string cannot
  be parsed: \<open>format\<close> throws and \<open>generatePdf\<close> produces no document.
\<close>

theorem generatePdf_unparsable_date:
  "generatePdf exampleRuntime invoice3 = Inl RangeError"
  by (simp add: generatePdf_def parseInvoiceDate_def example_defs)


text \<open>
  Claim C7, amended. For every invoice whose date string parses to a valid date,
  \<open>generatePdf\<close> returns a document whose text lines are, in this order: the invoice
  identifier, the formatted date, the customer name, the phone, the vehicle model, the
  vehicle number, the fixed heading \<open>Services:\<close>, one line per service item of the
  form \<open><index>. <description> - <currency><amount>\<close> with indices from 1 in the order
  of the services, and the line \<open>Total: <currency><total>\<close>. The document is a function
  of the invoice alone: \<open>generatePdf\<close> neither reads nor changes the state of the list.
\<close>

theorem generatePdf_lines:
  assumes "parseInvoiceDate rt (date invoice) = Time t"
  shows "\<exists>doc. generatePdf rt invoice = Inr doc \<and>
    textLines doc =
      [lit ''Invoice #'' @ id' invoice,
       lit ''Date: '' @ formatPPP rt t,
       lit ''Customer Name: '' @ customerName invoice,
       lit ''Phone: '' @ customerPhone invoice,
       lit ''Vehicle Model: '' @ vehicleModel invoice,
       lit ''Vehicle Number: '' @ vehicleNumber invoice,
       lit ''Services:'']
      @ map (\<lambda>(i, service). serviceLine rt (i + 1) service) (enumerate 0 (services invoice))
      @ [lit ''Total: '' @ rupee @ numberToString rt (total invoice)]"
proof -
  obtain lines y where sl: "serviceLines rt (services invoice) 0 (85 + 8) = (lines, y)"
    by (cases "serviceLines rt (services invoice) 0 (85 + 8)")
  have tl: "textLines lines =
      map (\<lambda>(i, service). serviceLine rt (i + 1) service) (enumerate 0 (services invoice))"
    using sl by (rule textLines_serviceLines)
  show ?thesis
    using assms sl tl by (simp add: generatePdf_def textLines_append)
qed

theorem generatePdf_lines_witness:
  "parseInvoiceDate exampleRuntime (date invoice1) = Time 1704412800000
   \<and> (\<exists>doc. generatePdf exampleRuntime invoice1 = Inr doc \<and>
        textLines doc =
          [lit ''Invoice #1'',
           lit ''Date: January 5th, 2024'',
           lit ''Customer Name: Asha Rao'',
           lit ''Phone: 98450 12345'',
           lit ''Vehicle Model: Swift'',
           lit ''Vehicle Number: KA01AB1234'',
           lit ''Services:'',
           lit ''1. Gas refill - '' @ rupee @ lit ''350'',
           lit ''2. Filter - '' @ rupee @ lit ''150'',
           lit ''Total: '' @ rupee @ lit ''500''])"
proof -
  have p: "parseInvoiceDate exampleRuntime (date invoice1) = Time 1704412800000"
    by (simp add: parseInvoiceDate_def example_defs)
  have e: "enumerate 0 (services invoice1) =
      [(0, \<lparr>description = lit ''Gas refill'', amount = 350\<rparr>),
       (1, \<lparr>description = lit ''Filter'', amount = 150\<rparr>)]"
    by (simp add: invoice1_def)
  from generatePdf_lines [OF p] obtain doc where
    "generatePdf exampleRuntime invoice1 = Inr doc" and
    "textLines doc =
      [lit ''Invoice #'' @ id' invoice1,
       lit ''Date: '' @ formatPPP exampleRuntime 1704412800000,
       lit ''Customer Name: '' @ customerName invoice1,
       lit ''Phone: '' @ customerPhone invoice1,
       lit ''Vehicle Model: '' @ vehicleModel invoice1,
       lit ''Vehicle Number: '' @ vehicleNumber invoice1,
       lit ''Services:'']
      @ map (\<lambda>(i, service). serviceLine exampleRuntime (i + 1) service)
          (enumerate 0 (services invoice1))
      @ [lit ''Total: '' @ rupee @ numberToString exampleRuntime (total invoice1)]"
    by blast
  then have "generatePdf exampleRuntime invoice1 = Inr doc \<and> textLines doc =
          [lit ''Invoice #1'',
           lit ''Date: January 5th, 2024'',
           lit ''Customer Name: Asha Rao'',
           lit ''Phone: 98450 12345'',
           lit ''Vehicle Model: Swift'',
           lit ''Vehicle Number: KA01AB1234'',
           lit ''Services:'',
           lit ''1. Gas refill - '' @ rupee @ lit ''350'',
           lit ''2. Filter - '' @ rupee @ lit ''150'',
           lit ''Total: '' @ rupee @ lit ''500'']"
    by (simp add: e serviceLine_def showNat.simps rupee_def example_defs)
  with p show ?thesis by blast
qed

section \<open>Export and share\<close>

text \<open>
  Claim C8. For an invoice whose \<open>customerPhone\<close> is empty, \<open>handleShare\<close> issues the
  validation error and does nothing else: the only new call is that notification, so
  no call reaches the document or the share collaborators, and the state is unchanged.
\<close>

theorem share_requires_phone:
  assumes "customerPhone invoice = []"
  shows "handleShare rt nav invoice w =
           w\<lparr>calls := calls w @ [ToastError (lit ''Customer phone number is missing.'')]\<rparr>
    \<and> sameState w (handleShare rt nav invoice w)"
  using assms by (simp add: handleShare_def emit_def sameState_def)

theorem share_requires_phone_witness:
  "customerPhone invoice2 = []
   \<and> calls (handleShare exampleRuntime ShareResolves invoice2 exampleWorld)
       = [ToastError (lit ''Customer phone number is missing.'')]
   \<and> invoices (handleShare exampleRuntime ShareResolves invoice2 exampleWorld)
       = invoices exampleWorld"
proof -
  have p: "customerPhone invoice2 = []" by (simp add: invoice2_def)
  have c: "calls exampleWorld = []" by (simp add: exampleWorld_def)
  from share_requires_phone [OF p, of exampleRuntime ShareResolves exampleWorld]
  have "calls (handleShare exampleRuntime ShareResolves invoice2 exampleWorld)
       = [ToastError (lit ''Customer phone number is missing.'')]
   \<and> invoices (handleShare exampleRuntime ShareResolves invoice2 exampleWorld)
       = invoices exampleWorld"
    using c by (simp add: sameState_def)
  with p show ?thesis by blast
qed

text \<open>
  Claim C9. \<open>downloadInvoice\<close> and \<open>saveAllInvoicesAsPDF\<close> leave the master
  collection, the filtered view, the filter criteria, the pending delete and the
  persisted store as they were, whether or not document generation throws; all they
  do is add calls to the collaborators.
\<close>

theorem export_keeps_state:
  "sameState w (snd (downloadInvoice rt invoice w))
   \<and> sameState w (snd (saveAllInvoicesAsPDF rt w))
   \<and> (\<exists>cs. snd (downloadInvoice rt invoice w) = w\<lparr>calls := calls w @ cs\<rparr>)
   \<and> (\<exists>cs. snd (saveAllInvoicesAsPDF rt w) = w\<lparr>calls := calls w @ cs\<rparr>)"
proof -
  have one: "\<exists>cs. snd (downloadInvoice rt invoice w) = w\<lparr>calls := calls w @ cs\<rparr>"
  proof (cases "generatePdf rt invoice")
    case (Inl e)
    then have "snd (downloadInvoice rt invoice w) = w\<lparr>calls := calls w @ []\<rparr>"
      by (simp add: downloadInvoice_def)
    then show ?thesis by blast
  next
    case (Inr doc)
    then have "snd (downloadInvoice rt invoice w) =
        w\<lparr>calls := calls w @ [DocSave (fileName invoice) doc]\<rparr>"
      by (simp add: downloadInvoice_def emit_def)
    then show ?thesis by blast
  qed
  obtain cs where each: "snd (saveEach rt (filteredInvoices w) w) = w\<lparr>calls := calls w @ cs\<rparr>"
    using saveEach_state by blast
  have all: "\<exists>cs. snd (saveAllInvoicesAsPDF rt w) = w\<lparr>calls := calls w @ cs\<rparr>"
  proof (cases "saveEach rt (filteredInvoices w) w")
    case (Pair r w')
    with each have w': "w' = w\<lparr>calls := calls w @ cs\<rparr>" by simp
    show ?thesis
    proof (cases r)
      case None
      with Pair w' have "snd (saveAllInvoicesAsPDF rt w) =
          w\<lparr>calls := calls w @ (cs @ [ToastSuccess (lit ''All invoices saved as PDFs'')])\<rparr>"
        by (simp add: saveAllInvoicesAsPDF_def emit_def)
      then show ?thesis by blast
    next
      case (Some e)
      with Pair w' have "snd (saveAllInvoicesAsPDF rt w) = w\<lparr>calls := calls w @ cs\<rparr>"
        by (simp add: saveAllInvoicesAsPDF_def)
      then show ?thesis by blast
    qed
  qed
  from one all show ?thesis
    by (auto simp: sameState_calls)
qed

text \<open>
  Claim C10. The validation of \<open>handleShare\<close> rejects the empty string only. For an
  invoice whose \<open>customerPhone\<close> is not empty and consists of white space or of other
  code units that are not digits, the validation error is not what \<open>handleShare\<close>
  does; the phone number stripped to its digits is empty; and when
  \<open>navigator.share\<close> is absent and the document and the message can be built, the
  link that is opened is \<open>https://wa.me/\<close> followed at once by \<open>?text=\<close>.
\<close>

theorem share_accepts_blank_phone:
  assumes "customerPhone invoice \<noteq> []"
    and "\<forall>c \<in> set (customerPhone invoice). isWhiteSpace c \<or> \<not> isDigit c"
  shows "handleShare rt nav invoice w
           \<noteq> emit (ToastError (lit ''Customer phone number is missing.'')) w
    \<and> stripNonDigits (customerPhone invoice) = []
    \<and> (\<forall>doc message.
          generatePdf rt invoice = Inr doc \<and>
          encodeURIComponent (shareMessage rt invoice) = Inr message \<longrightarrow>
          handleShare rt NoShare invoice w =
            w\<lparr>calls := calls w @
                [DocOutput doc,
                 WindowOpen (lit ''https://wa.me/'' @ lit ''?text='' @ message) (lit ''_blank'')]\<rparr>)"
proof -
  obtain c cs where first: "calls (handleShare rt nav invoice w) = calls w @ c # cs"
    and other: "c \<noteq> ToastError (lit ''Customer phone number is missing.'')"
    using handleShare_first_call [OF assms(1)] by blast
  have passes: "handleShare rt nav invoice w
           \<noteq> emit (ToastError (lit ''Customer phone number is missing.'')) w"
  proof
    assume "handleShare rt nav invoice w
              = emit (ToastError (lit ''Customer phone number is missing.'')) w"
    then have "calls (handleShare rt nav invoice w)
              = calls w @ [ToastError (lit ''Customer phone number is missing.'')]"
      by (simp add: emit_def)
    with first other show False by simp
  qed
  have nodigit: "\<forall>c \<in> set (customerPhone invoice). \<not> isDigit c"
    using assms(2) whiteSpace_not_digit by blast
  then have empty: "stripNonDigits (customerPhone invoice) = []"
    by (rule stripNonDigits_none)
  have fallback: "handleShare rt NoShare invoice w =
            w\<lparr>calls := calls w @
                [DocOutput doc,
                 WindowOpen (lit ''https://wa.me/'' @ lit ''?text='' @ message) (lit ''_blank'')]\<rparr>"
    if "generatePdf rt invoice = Inr doc"
      and "encodeURIComponent (shareMessage rt invoice) = Inr message" for doc message
    using that assms(1) empty
    by (simp add: handleShare_def shareAttempt_def emit_def Let_def)
  from passes empty fallback show ?thesis by blast
qed


theorem share_accepts_blank_phone_witness:
  "customerPhone invoice4 = [0x20, 0x20]
   \<and> isWhiteSpace 0x20
   \<and> handleShare exampleRuntime NoShare invoice4 exampleWorld
        \<noteq> emit (ToastError (lit ''Customer phone number is missing.'')) exampleWorld
   \<and> (\<exists>doc. generatePdf exampleRuntime invoice4 = Inr doc \<and>
         calls (handleShare exampleRuntime NoShare invoice4 exampleWorld) =
           [DocOutput doc,
            WindowOpen
              (lit ''https://wa.me/?text=Hi%20Meena%20K%2C%20here'' @ [0x27] @
               lit ''s%20your%20invoice%20for%20Alto%20(TN09XY0001).%0ATotal%3A%20%E2%82%B90%0ADownload%20PDF%3A'')
              (lit ''_blank'')])"
proof -
  have p: "customerPhone invoice4 \<noteq> []"
    by (simp add: example_defs)
  have q: "\<forall>c \<in> set (customerPhone invoice4). isWhiteSpace c \<or> \<not> isDigit c"
    by (simp add: example_defs isWhiteSpace_def)
  have "parseInvoiceDate exampleRuntime (date invoice4) = Time 1707523200000"
    by (simp add: parseInvoiceDate_def example_defs)
  then obtain doc where g: "generatePdf exampleRuntime invoice4 = Inr doc"
    using generatePdf_valid by blast
  have m: "encodeURIComponent (shareMessage exampleRuntime invoice4) =
      Inr (lit ''Hi%20Meena%20K%2C%20here'' @ [0x27] @
           lit ''s%20your%20invoice%20for%20Alto%20(TN09XY0001).%0ATotal%3A%20%E2%82%B90%0ADownload%20PDF%3A'')"
    by (simp add: shareMessage_def shareText_def rupee_def showNat.simps isUnescaped_def
        isLowSurrogate_def isHighSurrogate_def utf8_def escapeByte_def hexDigit_def example_defs)
  have c: "calls exampleWorld = []" by (simp add: exampleWorld_def)
  note t = share_accepts_blank_phone [OF p q, of exampleRuntime NoShare exampleWorld]
  from t have one: "handleShare exampleRuntime NoShare invoice4 exampleWorld
        \<noteq> emit (ToastError (lit ''Customer phone number is missing.'')) exampleWorld"
    by blast
  from t g m have "handleShare exampleRuntime NoShare invoice4 exampleWorld =
      exampleWorld\<lparr>calls := calls exampleWorld @
         [DocOutput doc,
          WindowOpen (lit ''https://wa.me/'' @ lit ''?text='' @
              (lit ''Hi%20Meena%20K%2C%20here'' @ [0x27] @
               lit ''s%20your%20invoice%20for%20Alto%20(TN09XY0001).%0ATotal%3A%20%E2%82%B90%0ADownload%20PDF%3A''))
            (lit ''_blank'')]\<rparr>"
    by blast
  then have two: "calls (handleShare exampleRuntime NoShare invoice4 exampleWorld) =
           [DocOutput doc,
            WindowOpen
              (lit ''https://wa.me/?text=Hi%20Meena%20K%2C%20here'' @ [0x27] @
               lit ''s%20your%20invoice%20for%20Alto%20(TN09XY0001).%0ATotal%3A%20%E2%82%B90%0ADownload%20PDF%3A'')
              (lit ''_blank'')]"
    using c by (simp add: lit_def)
  have r: "customerPhone invoice4 = [0x20, 0x20]" by (simp add: example_defs)
  have s: "isWhiteSpace 0x20" by (simp add: isWhiteSpace_def)
  from r s one g two show ?thesis by blast
qed


end
